theory Spec2Isabelle
  imports Main
begin

section \<open>JavaScript values\<close>

text \<open>
  The client is JavaScript: every parameter and every field may hold any value. The
  values the client handles are modelled by \<open>jsval\<close>: the data values, as
  \<open>JSON.parse\<close> builds them, and undefined. Numbers are restricted to integers
  (account numbers, sequences, result codes, heights, timeouts); fractions, NaN and the
  infinities are left out. Objects are plain objects, given by their own properties in
  order; a property holds a data value again, never a function, so no value of this type
  has a method of its own.
\<close>

datatype jsval =
    JUndefined
  | JNull
  | JBool bool
  | JNum int
  | JStr string
  | JArr "jsval list"
  | JObj "(string \<times> jsval) list"

text \<open>
  A thrown value: an error object with its \<open>name\<close> and \<open>message\<close>, or any other
  value (the libraries the client calls may throw what they like).
\<close>

datatype error = ErrorObj string string | Thrown jsval

definition Error :: "string \<Rightarrow> error" where
  "Error m = ErrorObj ''Error'' m"

definition TypeError :: "string \<Rightarrow> error" where
  "TypeError m = ErrorObj ''TypeError'' m"

text \<open>Truthiness, as \<open>if (x)\<close> and \<open>!x\<close> test it.\<close>

fun truthy :: "jsval \<Rightarrow> bool" where
  "truthy JUndefined = False"
| "truthy JNull = False"
| "truthy (JBool b) = b"
| "truthy (JNum n) = (n \<noteq> 0)"
| "truthy (JStr s) = (s \<noteq> [])"
| "truthy (JArr _) = True"
| "truthy (JObj _) = True"

text \<open>\<open>x != null\<close>: loose inequality with null holds for all but undefined and null.\<close>

definition not_nullish :: "jsval \<Rightarrow> bool" where
  "not_nullish v = (v \<noteq> JUndefined \<and> v \<noteq> JNull)"

text \<open>Decimal digits of a number, as \<open>String(n)\<close> prints an integer below \<open>10^21\<close>.\<close>

definition digit_char :: "nat \<Rightarrow> char" where
  "digit_char d = ''0123456789'' ! d"

fun nat_to_dec :: "nat \<Rightarrow> string" where
  "nat_to_dec n =
     (if n < 10 then [digit_char n] else nat_to_dec (n div 10) @ [digit_char (n mod 10)])"

declare nat_to_dec.simps [simp del]

definition int_to_dec :: "int \<Rightarrow> string" where
  "int_to_dec i = (if i < 0 then CHR ''-'' # nat_to_dec (nat (- i)) else nat_to_dec (nat i))"

fun join :: "string \<Rightarrow> string list \<Rightarrow> string" where
  "join sep [] = []"
| "join sep [x] = x"
| "join sep (x # y # ys) = x @ sep @ join sep (y # ys)"

text \<open>
  The string that \<open>String(x)\<close> gives, which is also what a template literal and
  \<open>'...' + x\<close> make of \<open>x\<close>, whenever the conversion gives one (see
  \<open>convertible\<close> below). An array prints its elements joined by commas, undefined and
  null elements as the empty string; a plain object prints as \<open>[object Object]\<close>.
\<close>

fun js_String :: "jsval \<Rightarrow> string" where
  "js_String JUndefined = ''undefined''"
| "js_String JNull = ''null''"
| "js_String (JBool b) = (if b then ''true'' else ''false'')"
| "js_String (JNum n) = int_to_dec n"
| "js_String (JStr s) = s"
| "js_String (JArr xs) =
     join '','' (map (\<lambda>v. if v = JUndefined \<or> v = JNull then [] else js_String v) xs)"
| "js_String (JObj _) = ''[object Object]''"

text \<open>
  Converting an object to a primitive calls its \<open>toString\<close>. A plain object inherits
  one, unless a property of its own named \<open>toString\<close> hides it: that property holds
  data, cannot be called, and \<open>valueOf\<close>, own or inherited, gives no primitive
  either, so the conversion throws a TypeError. An array converts its elements in turn,
  undefined and null apart. Every other value converts.
\<close>

fun convertible :: "jsval \<Rightarrow> bool" where
  "convertible (JArr xs) = (\<forall>v \<in> set xs. convertible v)"
| "convertible (JObj fs) = (map_of fs ''toString'' = None)"
| "convertible _ = True"

definition cannot_convert :: error where
  "cannot_convert = TypeError ''Cannot convert object to primitive value''"

text \<open>The call \<open>String(x)\<close>: the string, or the TypeError of the conversion.\<close>

definition String_of :: "jsval \<Rightarrow> error + string" where
  "String_of v = (if convertible v then Inr (js_String v) else Inl cannot_convert)"

text \<open>\<open>Error.prototype.toString\<close>: the name, a colon and the message.\<close>

fun err_String :: "error \<Rightarrow> string" where
  "err_String (ErrorObj n m) =
     (if n = [] then m else if m = [] then n else n @ '': '' @ m)"
| "err_String (Thrown v) = js_String v"

text \<open>
  \<open>x == s\<close> for a string \<open>s\<close> that is not a numeral (the three mode names): a string
  compares by content, an array or an object is first converted to a primitive, which
  throws or gives its string, a number or a boolean is compared with the number \<open>s\<close>
  denotes, which is NaN, and undefined and null equal no string.
\<close>

fun loose_eq_str :: "jsval \<Rightarrow> string \<Rightarrow> error + bool" where
  "loose_eq_str (JStr t) s = Inr (t = s)"
| "loose_eq_str (JArr xs) s = map_sum id (\<lambda>p. p = s) (String_of (JArr xs))"
| "loose_eq_str (JObj fs) s = map_sum id (\<lambda>p. p = s) (String_of (JObj fs))"
| "loose_eq_str _ s = Inr False"

text \<open>
  Reading a property. On undefined and null the read throws a TypeError (the message is
  the one V8 gives; nothing below depends on it). The property
  names the client reads (\<open>address\<close>, \<open>data\<close>, \<open>result\<close>, \<open>account_number\<close>,
  \<open>sequence\<close>, ...) are no built-in property of a string, number, boolean or array, so
  there the read gives undefined.
\<close>

fun own_prop :: "jsval \<Rightarrow> string \<Rightarrow> jsval" where
  "own_prop (JObj fs) k = (case map_of fs k of Some v \<Rightarrow> v | None \<Rightarrow> JUndefined)"
| "own_prop _ k = JUndefined"

definition get_prop :: "jsval \<Rightarrow> string \<Rightarrow> error + jsval" where
  "get_prop v k =
     (if not_nullish v then Inr (own_prop v k)
      else Inl (TypeError (''Cannot read properties of '' @ js_String v @
                           '' (reading '' @ [CHR 0x27] @ k @ [CHR 0x27] @ '')'')))"

text \<open>
  lodash's \<open>_.get(object, path)\<close> with the path \<open>'a.b.c'\<close> given as its keys
  \<open>[a, b, c]\<close>: it walks the keys, and gives undefined as soon as it stands on
  undefined or null with a key left.
\<close>

fun lodash_get :: "jsval \<Rightarrow> string list \<Rightarrow> jsval" where
  "lodash_get v [] = v"
| "lodash_get v (k # ks) = (if not_nullish v then lodash_get (own_prop v k) ks else JUndefined)"


section \<open>The client and what it calls\<close>

text \<open>
  The fields of a \<open>SeeleClient\<close>. A field that was never assigned reads as undefined.
\<close>

record client =
  baseURI :: jsval
  broadcastMode :: jsval
  hard :: jsval
  chainID :: jsval
  accNum :: jsval
  wallet :: jsval

text \<open>The object literal that \<open>prepareSignInfo\<close> builds.\<close>

record sign_info =
  chain_id :: jsval
  account_number :: string
  sequence :: string

text \<open>
  What the outside world sees of a run: the requests sent to the node, with their
  arguments, and the lines written to the console, in order.
\<close>

datatype event =
    GetTx jsval jsval jsval
  | LoadMetaData jsval jsval
  | BroadcastTx jsval jsval jsval
  | ConsoleLog string

text \<open>
  The modules the client requires (\<open>../tx\<close>, \<open>../msg\<close>, \<open>./hard\<close>,
  \<open>@tendermint/sig\<close>) are parameters. A request to the node answers or throws, and
  its answer may depend on everything that happened before; the builders and the signer
  are functions of their arguments. \<open>new Hard(this)\<close> receives the client under
  construction and is taken not to write to its fields.
\<close>

record env =
  getTx :: "event list \<Rightarrow> jsval \<Rightarrow> jsval \<Rightarrow> jsval \<Rightarrow> error + jsval"
  loadMetaData :: "event list \<Rightarrow> jsval \<Rightarrow> jsval \<Rightarrow> error + jsval"
  broadcastTx :: "event list \<Rightarrow> jsval \<Rightarrow> jsval \<Rightarrow> jsval \<Rightarrow> error + jsval"
  signTx :: "jsval \<Rightarrow> sign_info \<Rightarrow> jsval \<Rightarrow> error + jsval"
  newStdTx :: "jsval \<Rightarrow> jsval \<Rightarrow> error + jsval"
  newMsgSend :: "jsval \<Rightarrow> jsval \<Rightarrow> jsval \<Rightarrow> error + jsval"
  createWalletFromMnemonic :: "jsval \<Rightarrow> jsval \<Rightarrow> jsval \<Rightarrow> jsval \<Rightarrow> error + jsval"
  newHard :: "client \<Rightarrow> error + jsval"

definition SEELE_PREFIX :: string where
  "SEELE_PREFIX = ''seele''"

definition DERIVATION_PATH :: string where
  "DERIVATION_PATH = ''m/44'' @ [CHR 0x27] @ ''/513'' @ [CHR 0x27] @ ''/0'' @ [CHR 0x27] @ ''/0/0''"

definition DERIVATION_PATH_LEGACY :: string where
  "DERIVATION_PATH_LEGACY =
     ''m/44'' @ [CHR 0x27] @ ''/118'' @ [CHR 0x27] @ ''/0'' @ [CHR 0x27] @ ''/0/0''"

definition DEFAULT_FEE :: jsval where
  "DEFAULT_FEE = JObj [(''amount'', JArr []), (''gas'', JStr (js_String (JNum 300000)))]"

definition api_txs :: string where "api_txs = ''/txs''"
definition api_nodeInfo :: string where "api_nodeInfo = ''/node_info''"
definition api_getBlock :: string where "api_getBlock = ''/blocks''"
definition api_getLatestBlock :: string where "api_getLatestBlock = ''/blocks/latest''"
definition api_getLatestValidatorSet :: string where
  "api_getLatestValidatorSet = ''/validatorsets/latest''"
definition api_getValidatorSet :: string where "api_getValidatorSet = ''/validatorsets/''"
definition api_getAccount :: string where "api_getAccount = ''/auth/accounts''"
definition api_getBalances :: string where "api_getBalances = ''/bank/balances''"
definition api_getSupply :: string where "api_getSupply = ''/supply/total''"

text \<open>A parameter with a default takes it when the argument is undefined.\<close>

definition default_param :: "jsval \<Rightarrow> jsval \<Rightarrow> jsval" where
  "default_param d v = (if v = JUndefined then d else v)"

section \<open>Construction and the setters\<close>

text \<open>
  A method that returns \<open>this\<close> gives \<open>Inr ()\<close> next to the client as the call
  leaves it; a method that throws gives \<open>Inl\<close> of what it threw, again next to the
  client as the call leaves it.
\<close>

definition SeeleClient_constructor :: "env \<Rightarrow> jsval \<Rightarrow> error + client" where
  "SeeleClient_constructor e server =
     (if \<not> truthy server then Inl (Error ''Seele server should not be null'')
      else
        let this = \<lparr>baseURI = server, broadcastMode = JStr ''sync'', hard = JUndefined,
                    chainID = JUndefined, accNum = JUndefined, wallet = JUndefined\<rparr>
        in case newHard e this of
             Inl x \<Rightarrow> Inl x
           | Inr h \<Rightarrow> Inr (this\<lparr>hard := h\<rparr>))"

definition setChainID :: "client \<Rightarrow> jsval \<Rightarrow> (error + unit) \<times> client" where
  "setChainID this cid =
     (if \<not> truthy cid then (Inl (Error ''chainID cannot be undefined''), this)
      else (Inr (), this\<lparr>chainID := cid\<rparr>))"

definition setAccountNumber :: "client \<Rightarrow> jsval \<Rightarrow> (error + unit) \<times> client" where
  "setAccountNumber this n =
     (if \<not> truthy n then (Inl (Error ''account number cannot be undefined''), this)
      else case String_of n of
             Inl x \<Rightarrow> (Inl x, this)
           | Inr s \<Rightarrow> (Inr (), this\<lparr>accNum := JStr s\<rparr>))"

text \<open>
  \<open>mode != 'async' && mode != 'sync' && mode != 'block'\<close>, from left to right: a
  comparison that throws ends the test, and so does one that finds the mode equal.
\<close>

definition no_known_mode :: "jsval \<Rightarrow> error + bool" where
  "no_known_mode mode =
     (case loose_eq_str mode ''async'' of
        Inl x \<Rightarrow> Inl x
      | Inr a \<Rightarrow>
          if a then Inr False
          else (case loose_eq_str mode ''sync'' of
                  Inl x \<Rightarrow> Inl x
                | Inr b \<Rightarrow>
                    if b then Inr False
                    else (case loose_eq_str mode ''block'' of
                            Inl x \<Rightarrow> Inl x
                          | Inr c \<Rightarrow> Inr (\<not> c))))"

text \<open>
  \<open>new Error(a, b, c)\<close> keeps its first argument as the message, so the message of the
  second error is \<open>'invalid broadcast mode '\<close>.
\<close>

definition setBroadcastMode :: "client \<Rightarrow> jsval \<Rightarrow> (error + unit) \<times> client" where
  "setBroadcastMode this mode =
     (if \<not> truthy mode then (Inl (Error ''broadcast mode cannot be undefined''), this)
      else case no_known_mode mode of
             Inl x \<Rightarrow> (Inl x, this)
           | Inr unknown \<Rightarrow>
               if unknown then (Inl (Error ''invalid broadcast mode ''), this)
               else (case String_of mode of
                       Inl x \<Rightarrow> (Inl x, this)
                     | Inr s \<Rightarrow> (Inr (), this\<lparr>broadcastMode := JStr s\<rparr>)))"

definition setWallet ::
  "env \<Rightarrow> client \<Rightarrow> jsval \<Rightarrow> jsval \<Rightarrow> jsval \<Rightarrow> (error + unit) \<times> client" where
  "setWallet e this mnemonic password legacy =
     (let password' = default_param (JStr []) password;
          legacy' = default_param (JBool False) legacy
      in if \<not> truthy mnemonic then (Inl (Error ''mnemonic cannot be undefined''), this)
         else
           let derivationPath =
                 (if truthy legacy' then DERIVATION_PATH_LEGACY else DERIVATION_PATH)
           in case createWalletFromMnemonic e mnemonic password' (JStr SEELE_PREFIX)
                     (JStr derivationPath) of
                Inl x \<Rightarrow> (Inl x, this)
              | Inr wl \<Rightarrow> (Inr (), this\<lparr>wallet := wl\<rparr>))"

section \<open>Requests to the node\<close>

text \<open>
  The values that the methods below turn into strings are account numbers, sequences,
  transaction hashes, heights, addresses and denominations, which are strings and numbers:
  there the conversion is written with \<open>js_String\<close>.
\<close>

text \<open>
  \<open>await tx.getTx(path, base, timeout)\<close>: the answer of the node, and the request
  added to the trace whether it answered or threw.
\<close>

definition call_getTx ::
  "env \<Rightarrow> event list \<Rightarrow> jsval \<Rightarrow> jsval \<Rightarrow> jsval \<Rightarrow> (error + jsval) \<times> event list" where
  "call_getTx e w path base timeout =
     (getTx e w path base timeout, w @ [GetTx path base timeout])"

definition initChain ::
  "env \<Rightarrow> client \<Rightarrow> event list \<Rightarrow> (error + unit) \<times> client \<times> event list" where
  "initChain e this w =
     (if \<not> truthy (chainID this) then
        (case call_getTx e w (JStr api_nodeInfo) (baseURI this) JUndefined of
           (Inl x, w') \<Rightarrow> (Inl x, this, w')
         | (Inr res, w') \<Rightarrow>
             (Inr (), this\<lparr>chainID := lodash_get res [''data'', ''node_info'', ''network'']\<rparr>, w'))
      else (Inr (), this, w))"

definition prepareSignInfo ::
  "env \<Rightarrow> client \<Rightarrow> jsval \<Rightarrow> event list \<Rightarrow> (error + sign_info) \<times> event list" where
  "prepareSignInfo e this sq w =
     (if truthy sq \<and> not_nullish (accNum this) then
        (Inr \<lparr>chain_id = chainID this,
              account_number = js_String (accNum this),
              sequence = js_String sq\<rparr>, w)
      else
        case get_prop (wallet this) ''address'' of
          Inl x \<Rightarrow> (Inl x, w)
        | Inr addr \<Rightarrow>
            (let w' = w @ [LoadMetaData addr (baseURI this)]
             in (case loadMetaData e w addr (baseURI this) of
                 Inl x \<Rightarrow> (Inl x, w')
               | Inr meta \<Rightarrow>
                   (case (if not_nullish (accNum this) then Inr (accNum this)
                          else get_prop meta ''account_number'') of
                      Inl x \<Rightarrow> (Inl x, w')
                    | Inr an \<Rightarrow>
                        (case (if truthy sq then Inr sq else get_prop meta ''sequence'') of
                           Inl x \<Rightarrow> (Inl x, w')
                         | Inr s \<Rightarrow>
                             (Inr \<lparr>chain_id = chainID this,
                                   account_number = js_String an,
                                   sequence = js_String s\<rparr>, w'))))))"

definition sendTx ::
  "env \<Rightarrow> client \<Rightarrow> jsval \<Rightarrow> jsval \<Rightarrow> jsval \<Rightarrow> event list \<Rightarrow> (error + jsval) \<times> event list" where
  "sendTx e this msgs fee sq w =
     (case newStdTx e msgs fee of
        Inl x \<Rightarrow> (Inl x, w)
      | Inr rawTx \<Rightarrow>
          (case prepareSignInfo e this sq w of
             (Inl x, w') \<Rightarrow> (Inl x, w')
           | (Inr signInfo, w') \<Rightarrow>
               (case signTx e rawTx signInfo (wallet this) of
                  Inl x \<Rightarrow> (Inl x, w')
                | Inr signedTx \<Rightarrow>
                    (broadcastTx e w' signedTx (baseURI this) (broadcastMode this),
                     w' @ [BroadcastTx signedTx (baseURI this) (broadcastMode this)]))))"

definition transfer ::
  "env \<Rightarrow> client \<Rightarrow> jsval \<Rightarrow> jsval \<Rightarrow> jsval \<Rightarrow> jsval \<Rightarrow> event list
     \<Rightarrow> (error + jsval) \<times> event list" where
  "transfer e this recipient coins fee sq w =
     (let fee' = default_param DEFAULT_FEE fee;
          sq' = default_param JNull sq
      in case get_prop (wallet this) ''address'' of
           Inl x \<Rightarrow> (Inl x, w)
         | Inr addr \<Rightarrow>
             (case newMsgSend e addr recipient coins of
                Inl x \<Rightarrow> (Inl x, w)
              | Inr msgSend \<Rightarrow> sendTx e this (JArr [msgSend]) fee' sq' w))"

text \<open>
  \<open>checkTxHash\<close>. The second \<open>try\<close> throws and catches its own error, and what is
  left of it is the line on the console; \<open>res.data\<close> is read after both.
\<close>

definition checkTxHash ::
  "env \<Rightarrow> client \<Rightarrow> jsval \<Rightarrow> jsval \<Rightarrow> event list \<Rightarrow> (error + jsval) \<times> event list" where
  "checkTxHash e this txHash timeout w =
     (let timeout' = default_param (JNum 10000) timeout;
          path = api_txs @ ''/'' @ js_String txHash
      in case call_getTx e w (JStr path) (baseURI this) timeout' of
           (Inl x, w') \<Rightarrow> (Inl (Error (''tx not found: '' @ err_String x)), w')
         | (Inr res, w') \<Rightarrow>
             (let w'' =
                   (if truthy (lodash_get res [''data'', ''code'']) then
                      w' @ [ConsoleLog ([CHR 0x0A] @ err_String (Error
                              (''tx not accepted by chain: '' @ [CHR 0x22] @
                               js_String (lodash_get res [''data'', ''raw_log'']) @
                               [CHR 0x22])))]
                    else w')
              in (get_prop res ''data'', w'')))"


section \<open>The chain queries\<close>

text \<open>
  Each query ends in \<open>if (res && res.data) return res.data\<close> (or
  \<open>res.data.result\<close>) and returns undefined otherwise.
\<close>

definition data_of :: "jsval \<Rightarrow> jsval" where
  "data_of res =
     (if truthy res \<and> truthy (own_prop res ''data'') then own_prop res ''data''
      else JUndefined)"

definition result_of :: "jsval \<Rightarrow> jsval" where
  "result_of res =
     (if truthy res \<and> truthy (own_prop res ''data'')
      then own_prop (own_prop res ''data'') ''result''
      else JUndefined)"

definition getLatestBlock ::
  "env \<Rightarrow> client \<Rightarrow> jsval \<Rightarrow> event list \<Rightarrow> (error + jsval) \<times> event list" where
  "getLatestBlock e this timeout w =
     (case call_getTx e w (JStr api_getLatestBlock) (baseURI this)
             (default_param (JNum 2000) timeout) of
        (Inl x, w') \<Rightarrow> (Inl x, w')
      | (Inr res, w') \<Rightarrow> (Inr (data_of res), w'))"

definition getBlock ::
  "env \<Rightarrow> client \<Rightarrow> jsval \<Rightarrow> jsval \<Rightarrow> event list \<Rightarrow> (error + jsval) \<times> event list" where
  "getBlock e this height timeout w =
     (case call_getTx e w (JStr (api_getBlock @ ''/'' @ js_String height)) (baseURI this)
             (default_param (JNum 2000) timeout) of
        (Inl x, w') \<Rightarrow> (Inl x, w')
      | (Inr res, w') \<Rightarrow> (Inr (data_of res), w'))"

definition getLatestValidatorSet ::
  "env \<Rightarrow> client \<Rightarrow> jsval \<Rightarrow> event list \<Rightarrow> (error + jsval) \<times> event list" where
  "getLatestValidatorSet e this timeout w =
     (case call_getTx e w (JStr api_getLatestValidatorSet) (baseURI this)
             (default_param (JNum 2000) timeout) of
        (Inl x, w') \<Rightarrow> (Inl x, w')
      | (Inr res, w') \<Rightarrow> (Inr (data_of res), w'))"

definition getValidatorSet ::
  "env \<Rightarrow> client \<Rightarrow> jsval \<Rightarrow> jsval \<Rightarrow> event list \<Rightarrow> (error + jsval) \<times> event list" where
  "getValidatorSet e this height timeout w =
     (case call_getTx e w (JStr (api_getValidatorSet @ ''/'' @ js_String height))
             (baseURI this) (default_param (JNum 2000) timeout) of
        (Inl x, w') \<Rightarrow> (Inl x, w')
      | (Inr res, w') \<Rightarrow> (Inr (data_of res), w'))"

definition getAccount ::
  "env \<Rightarrow> client \<Rightarrow> jsval \<Rightarrow> jsval \<Rightarrow> event list \<Rightarrow> (error + jsval) \<times> event list" where
  "getAccount e this address timeout w =
     (case call_getTx e w (JStr (api_getAccount @ ''/'' @ js_String address)) (baseURI this)
             (default_param (JNum 2000) timeout) of
        (Inl x, w') \<Rightarrow> (Inl x, w')
      | (Inr res, w') \<Rightarrow> (Inr (result_of res), w'))"

definition getBalances ::
  "env \<Rightarrow> client \<Rightarrow> jsval \<Rightarrow> jsval \<Rightarrow> event list \<Rightarrow> (error + jsval) \<times> event list" where
  "getBalances e this address timeout w =
     (case call_getTx e w (JStr (api_getBalances @ ''/'' @ js_String address)) (baseURI this)
             (default_param (JNum 2000) timeout) of
        (Inl x, w') \<Rightarrow> (Inl x, w')
      | (Inr res, w') \<Rightarrow> (Inr (result_of res), w'))"

definition getSupply ::
  "env \<Rightarrow> client \<Rightarrow> jsval \<Rightarrow> event list \<Rightarrow> (error + jsval) \<times> event list" where
  "getSupply e this timeout w =
     (case call_getTx e w (JStr api_getSupply) (baseURI this)
             (default_param (JNum 2000) timeout) of
        (Inl x, w') \<Rightarrow> (Inl x, w')
      | (Inr res, w') \<Rightarrow> (Inr (result_of res), w'))"

definition getSupplyOf ::
  "env \<Rightarrow> client \<Rightarrow> jsval \<Rightarrow> jsval \<Rightarrow> event list \<Rightarrow> (error + jsval) \<times> event list" where
  "getSupplyOf e this denom timeout w =
     (case call_getTx e w (JStr (api_getSupply @ ''/'' @ js_String denom)) (baseURI this)
             (default_param (JNum 2000) timeout) of
        (Inl x, w') \<Rightarrow> (Inl x, w')
      | (Inr res, w') \<Rightarrow> (Inr (result_of res), w'))"

section \<open>A caller\<close>

text \<open>
  A caller drives one client through its methods, one call after the other, each awaited
  and its error, if any, caught. \<open>run\<close> gives the client and the trace after the
  calls.
\<close>

datatype call =
    SetChainID jsval
  | SetAccountNumber jsval
  | SetBroadcastMode jsval
  | SetWallet jsval jsval jsval
  | InitChain
  | PrepareSignInfo jsval
  | SendTx jsval jsval jsval
  | Transfer jsval jsval jsval jsval
  | CheckTxHash jsval jsval
  | GetLatestBlock jsval
  | GetBlock jsval jsval
  | GetLatestValidatorSet jsval
  | GetValidatorSet jsval jsval
  | GetAccount jsval jsval
  | GetBalances jsval jsval
  | GetSupply jsval
  | GetSupplyOf jsval jsval

fun step :: "env \<Rightarrow> call \<Rightarrow> client \<times> event list \<Rightarrow> client \<times> event list" where
  "step e (SetChainID v) (c, w) = (snd (setChainID c v), w)"
| "step e (SetAccountNumber v) (c, w) = (snd (setAccountNumber c v), w)"
| "step e (SetBroadcastMode v) (c, w) = (snd (setBroadcastMode c v), w)"
| "step e (SetWallet m p l) (c, w) = (snd (setWallet e c m p l), w)"
| "step e InitChain (c, w) = snd (initChain e c w)"
| "step e (PrepareSignInfo s) (c, w) = (c, snd (prepareSignInfo e c s w))"
| "step e (SendTx ms f s) (c, w) = (c, snd (sendTx e c ms f s w))"
| "step e (Transfer r cs f s) (c, w) = (c, snd (transfer e c r cs f s w))"
| "step e (CheckTxHash h t) (c, w) = (c, snd (checkTxHash e c h t w))"
| "step e (GetLatestBlock t) (c, w) = (c, snd (getLatestBlock e c t w))"
| "step e (GetBlock h t) (c, w) = (c, snd (getBlock e c h t w))"
| "step e (GetLatestValidatorSet t) (c, w) = (c, snd (getLatestValidatorSet e c t w))"
| "step e (GetValidatorSet h t) (c, w) = (c, snd (getValidatorSet e c h t w))"
| "step e (GetAccount a t) (c, w) = (c, snd (getAccount e c a t w))"
| "step e (GetBalances a t) (c, w) = (c, snd (getBalances e c a t w))"
| "step e (GetSupply t) (c, w) = (c, snd (getSupply e c t w))"
| "step e (GetSupplyOf d t) (c, w) = (c, snd (getSupplyOf e c d t w))"

fun run :: "env \<Rightarrow> call list \<Rightarrow> client \<times> event list \<Rightarrow> client \<times> event list" where
  "run e [] s = s"
| "run e (x # xs) s = run e xs (step e x s)"

text \<open>An event that is no broadcast, or a broadcast sent with the mode \<open>m\<close>.\<close>

fun is_broadcast_with :: "jsval \<Rightarrow> event \<Rightarrow> bool" where
  "is_broadcast_with m (BroadcastTx _ _ m') = (m' = m)"
| "is_broadcast_with m _ = True"

text \<open>
  A node and libraries to run the client on: the node answers the node-info request
  with the network \<open>seele-1\<close>, the account request with account number 7 and
  sequence 3, a transaction lookup with result code 0 except for the hash \<open>BAD\<close>
  (code 5) and the hash \<open>GONE\<close> (no answer); the builders wrap their arguments.
\<close>

definition demo_getTx :: "event list \<Rightarrow> jsval \<Rightarrow> jsval \<Rightarrow> jsval \<Rightarrow> error + jsval" where
  "demo_getTx w path base timeout =
     (if path = JStr ''/node_info'' then
        Inr (JObj [(''data'', JObj [(''node_info'', JObj [(''network'', JStr ''seele-1'')])])])
      else if path = JStr ''/txs/BAD'' then
        Inr (JObj [(''data'', JObj [(''code'', JNum 5), (''raw_log'', JStr ''out of gas'')])])
      else if path = JStr ''/txs/GONE'' then Inl (Error ''timeout'')
      else Inr (JObj [(''data'', JObj [(''code'', JNum 0), (''txhash'', JStr ''AB'')])]))"

definition demo_env :: env where
  "demo_env =
     \<lparr>getTx = demo_getTx,
      loadMetaData = (\<lambda>w addr base.
         Inr (JObj [(''account_number'', JNum 7), (''sequence'', JNum 3)])),
      broadcastTx = (\<lambda>w signedTx base mode. Inr (JObj [(''data'', signedTx)])),
      signTx = (\<lambda>rawTx si wl.
         Inr (JObj [(''tx'', rawTx), (''chain_id'', chain_id si),
                    (''account_number'', JStr (account_number si)),
                    (''sequence'', JStr (sequence si))])),
      newStdTx = (\<lambda>msgs fee. Inr (JObj [(''msg'', msgs), (''fee'', fee)])),
      newMsgSend = (\<lambda>from to amount.
         Inr (JObj [(''from_address'', from), (''to_address'', to), (''amount'', amount)])),
      createWalletFromMnemonic = (\<lambda>mnemonic password prefix path.
         Inr (JObj [(''address'', JStr ''seele1qq''), (''path'', path)])),
      newHard = (\<lambda>c. Inr (JObj []))\<rparr>"

text \<open>A node whose answers carry an empty body.\<close>

definition blank_env :: env where
  "blank_env = demo_env\<lparr>getTx := (\<lambda>w path base timeout. Inr (JObj [(''data'', JObj [])]))\<rparr>"

text \<open>A node that cannot be reached: every request throws.\<close>

definition down_env :: env where
  "down_env = demo_env\<lparr>getTx := (\<lambda>w path base timeout. Inl (Error ''timeout''))\<rparr>"

definition demo_client :: client where
  "demo_client =
     \<lparr>baseURI = JStr ''http://node'', broadcastMode = JStr ''sync'', hard = JObj [],
      chainID = JUndefined, accNum = JUndefined, wallet = JUndefined\<rparr>"

section \<open>Facts about the values\<close>

lemma nat_to_dec_numeral:
  "nat_to_dec (numeral k) =
     (if (numeral k :: nat) < 10 then [digit_char (numeral k)]
      else nat_to_dec (numeral k div 10) @ [digit_char (numeral k mod 10)])"
  by (rule nat_to_dec.simps)

lemma nat_to_dec_small: "n < 10 \<Longrightarrow> nat_to_dec n = [digit_char n]"
  by (simp add: nat_to_dec.simps)









lemma get_prop_Inr: "not_nullish v \<Longrightarrow> get_prop v k = Inr (own_prop v k)"
  by (simp add: get_prop_def)

lemma get_prop_Inr_iff: "get_prop v k = Inr x \<longleftrightarrow> not_nullish v \<and> x = own_prop v k"
  by (auto simp: get_prop_def)


section \<open>Rejected configuration\<close>

text \<open>
  C5. An empty or undefined argument, and any other falsy one, makes the constructor and
  each of \<open>setChainID\<close>, \<open>setAccountNumber\<close>, \<open>setBroadcastMode\<close> and
  \<open>setWallet\<close> throw its configuration error, and the client is after the call what it
  was before: chainID, account number, broadcast mode and wallet are untouched.
\<close>

theorem falsy_input_rejected:
  assumes "\<not> truthy v"
  shows "SeeleClient_constructor e v = Inl (Error ''Seele server should not be null'')
       \<and> setChainID c v = (Inl (Error ''chainID cannot be undefined''), c)
       \<and> setAccountNumber c v = (Inl (Error ''account number cannot be undefined''), c)
       \<and> setBroadcastMode c v = (Inl (Error ''broadcast mode cannot be undefined''), c)
       \<and> setWallet e c v password legacy = (Inl (Error ''mnemonic cannot be undefined''), c)"
  using assms
  by (simp add: SeeleClient_constructor_def setChainID_def setAccountNumber_def
      setBroadcastMode_def setWallet_def Let_def)

theorem falsy_input_rejected_witness:
  "\<not> truthy (JStr [])
   \<and> SeeleClient_constructor demo_env (JStr []) = Inl (Error ''Seele server should not be null'')
   \<and> setChainID demo_client (JStr []) = (Inl (Error ''chainID cannot be undefined''), demo_client)
   \<and> setAccountNumber demo_client (JStr [])
       = (Inl (Error ''account number cannot be undefined''), demo_client)
   \<and> setBroadcastMode demo_client (JStr [])
       = (Inl (Error ''broadcast mode cannot be undefined''), demo_client)
   \<and> setWallet demo_env demo_client (JStr []) JUndefined JUndefined
       = (Inl (Error ''mnemonic cannot be undefined''), demo_client)
   \<and> \<not> truthy JUndefined
   \<and> setChainID demo_client JUndefined = (Inl (Error ''chainID cannot be undefined''), demo_client)"
  using falsy_input_rejected [where v = "JStr []" and e = demo_env and c = demo_client
      and password = JUndefined and legacy = JUndefined]
    falsy_input_rejected [where v = JUndefined and e = demo_env and c = demo_client
      and password = JUndefined and legacy = JUndefined]
  by simp

section \<open>The broadcast mode\<close>




section \<open>Signing metadata\<close>






text \<open>
  C1, as the claim has it, fails: \<open>prepareSignInfo\<close> never looks at chainID. With the
  chainID unset, an account number override and a sequence, it returns a SignInfo whose
  \<open>chain_id\<close> is undefined.
\<close>

theorem prepareSignInfo_unset_chainID_counterexample:
  "chainID (demo_client\<lparr>accNum := JStr ''5''\<rparr>) = JUndefined \<and>
   prepareSignInfo demo_env (demo_client\<lparr>accNum := JStr ''5''\<rparr>) (JStr ''2'') [] =
     (Inr \<lparr>chain_id = JUndefined, account_number = ''5'', sequence = ''2''\<rparr>, [])"
  by (simp add: prepareSignInfo_def demo_client_def not_nullish_def)

text \<open>
  C1, amended. \<open>prepareSignInfo\<close> does not check chainID: whether it throws, what it
  throws and the requests it sends are the same whatever the chainID of the client is, and
  a SignInfo it returns carries the chainID field of the client as it stands, undefined
  when it was never set.
\<close>

theorem prepareSignInfo_chain_id_verbatim:
  "fst (prepareSignInfo e (c\<lparr>chainID := x\<rparr>) sq w) =
     map_sum id (\<lambda>si. si\<lparr>chain_id := x\<rparr>) (fst (prepareSignInfo e c sq w))
   \<and> snd (prepareSignInfo e (c\<lparr>chainID := x\<rparr>) sq w) = snd (prepareSignInfo e c sq w)
   \<and> (prepareSignInfo e c sq w = (Inr si, w') \<longrightarrow> chain_id si = chainID c)"
  by (auto simp: prepareSignInfo_def Let_def split: sum.splits if_splits)

theorem prepareSignInfo_chain_id_verbatim_witness:
  "prepareSignInfo demo_env (demo_client\<lparr>accNum := JStr ''5''\<rparr>) (JStr ''2'') []
     = (Inr \<lparr>chain_id = JUndefined, account_number = ''5'', sequence = ''2''\<rparr>, [])
   \<and> chain_id \<lparr>chain_id = JUndefined, account_number = ''5'', sequence = ''2''\<rparr>
       = chainID (demo_client\<lparr>accNum := JStr ''5''\<rparr>)
   \<and> fst (prepareSignInfo demo_env (demo_client\<lparr>accNum := JStr ''5'', chainID := JStr ''seele-1''\<rparr>)
        (JStr ''2'') [])
       = Inr \<lparr>chain_id = JStr ''seele-1'', account_number = ''5'', sequence = ''2''\<rparr>"
  using prepareSignInfo_chain_id_verbatim [where e = demo_env and x = "JStr ''seele-1''"
      and c = "demo_client\<lparr>accNum := JStr ''5''\<rparr>" and sq = "JStr ''2''" and w = "[]"
      and si = "\<lparr>chain_id = JUndefined, account_number = ''5'', sequence = ''2''\<rparr>"
      and w' = "[]"]
  by (simp add: prepareSignInfo_def demo_client_def not_nullish_def)

text \<open>
  C9. A falsy sequence (the number 0, null, the empty string, undefined; the string
  \<open>'0'\<close> is truthy) counts as no sequence: with a wallet that has an address,
  \<open>prepareSignInfo\<close> sends the metadata request whether or not an account number
  override is set, and the sequence of a SignInfo it returns is the fetched one. So a
  \<open>transfer\<close> without a sequence (its default is null) sends the metadata request as
  soon as its message and its transaction are built.
\<close>

theorem falsy_sequence_fetches:
  assumes "get_prop (wallet c) ''address'' = Inr addr"
  shows "\<not> truthy (JNum 0) \<and> \<not> truthy JNull \<and> \<not> truthy (JStr []) \<and> truthy (JStr ''0'')
    \<and> (\<not> truthy sq \<longrightarrow>
          snd (prepareSignInfo e c sq w) = w @ [LoadMetaData addr (baseURI c)]
          \<and> (\<forall>si. fst (prepareSignInfo e c sq w) = Inr si \<longrightarrow>
                (\<exists>meta. loadMetaData e w addr (baseURI c) = Inr meta \<and> not_nullish meta
                   \<and> sequence si = js_String (own_prop meta ''sequence''))))
    \<and> (sq' \<in> {JUndefined, JNull} \<and> newMsgSend e addr r coins = Inr m
          \<and> newStdTx e (JArr [m]) (default_param DEFAULT_FEE fee) = Inr raw \<longrightarrow>
        (\<exists>rest. snd (transfer e c r coins fee sq' w)
                  = w @ LoadMetaData addr (baseURI c) # rest))"
proof -
  have fetch: "snd (prepareSignInfo e c s w) = w @ [LoadMetaData addr (baseURI c)]"
    if "\<not> truthy s" for s
    using that assms by (auto simp: prepareSignInfo_def Let_def split: sum.splits)
  have fetched: "\<exists>meta. loadMetaData e w addr (baseURI c) = Inr meta \<and> not_nullish meta
                   \<and> sequence si = js_String (own_prop meta ''sequence'')"
    if "\<not> truthy sq" "fst (prepareSignInfo e c sq w) = Inr si" for si
    using that assms
    by (auto simp: prepareSignInfo_def Let_def get_prop_Inr_iff split: sum.splits if_splits)
  have sent: "\<exists>rest. snd (transfer e c r coins fee sq' w)
                  = w @ LoadMetaData addr (baseURI c) # rest"
    if "sq' \<in> {JUndefined, JNull}" "newMsgSend e addr r coins = Inr m"
      "newStdTx e (JArr [m]) (default_param DEFAULT_FEE fee) = Inr raw"
  proof -
    have "\<not> truthy (default_param JNull sq')"
      using that(1) by (auto simp: default_param_def)
    then have "snd (prepareSignInfo e c (default_param JNull sq') w)
                 = w @ [LoadMetaData addr (baseURI c)]"
      by (rule fetch)
    then show ?thesis
      using assms that(2,3)
      by (cases "prepareSignInfo e c (default_param JNull sq') w")
         (auto simp: transfer_def sendTx_def Let_def split: sum.splits)
  qed
  show ?thesis
    using fetch [of sq] fetched sent by simp
qed

theorem falsy_sequence_fetches_witness:
  "snd (prepareSignInfo demo_env
          (demo_client\<lparr>accNum := JStr ''5'', wallet := JObj [(''address'', JStr ''seele1qq'')]\<rparr>)
          (JNum 0) [])
     = [LoadMetaData (JStr ''seele1qq'') (JStr ''http://node'')]
   \<and> fst (prepareSignInfo demo_env
          (demo_client\<lparr>accNum := JStr ''5'', wallet := JObj [(''address'', JStr ''seele1qq'')]\<rparr>)
          (JNum 0) [])
     = Inr \<lparr>chain_id = JUndefined, account_number = ''5'', sequence = ''3''\<rparr>
   \<and> (\<exists>rest. snd (transfer demo_env
          (demo_client\<lparr>accNum := JStr ''5'', wallet := JObj [(''address'', JStr ''seele1qq'')]\<rparr>)
          (JStr ''seele1zz'') (JArr []) JUndefined JUndefined [])
        = [] @ LoadMetaData (JStr ''seele1qq'') (JStr ''http://node'') # rest)"
  using falsy_sequence_fetches [where e = demo_env and w = "[]" and sq = "JNum 0"
      and c = "demo_client\<lparr>accNum := JStr ''5'',
                 wallet := JObj [(''address'', JStr ''seele1qq'')]\<rparr>"
      and addr = "JStr ''seele1qq''" and sq' = JUndefined and r = "JStr ''seele1zz''"
      and coins = "JArr []" and fee = JUndefined
      and m = "JObj [(''from_address'', JStr ''seele1qq''), (''to_address'', JStr ''seele1zz''),
                     (''amount'', JArr [])]"
      and raw = "JObj [(''msg'', JArr [JObj [(''from_address'', JStr ''seele1qq''),
                     (''to_address'', JStr ''seele1zz''), (''amount'', JArr [])]]),
                     (''fee'', DEFAULT_FEE)]"]
  by (simp add: prepareSignInfo_def demo_env_def demo_client_def not_nullish_def get_prop_def
      default_param_def int_to_dec_def nat_to_dec_numeral nat_to_dec_small digit_char_def)

section \<open>Looking a transaction up\<close>



section \<open>Resolving the chain ID\<close>

text \<open>
  C7, as the claim has it, fails: when the node's answer carries no network identifier,
  the first \<open>initChain\<close> leaves chainID undefined and the second call sends the
  node-info request again. Two calls, two requests.
\<close>

theorem initChain_twice_counterexample:
  "initChain blank_env demo_client [] =
     (Inr (), demo_client, [GetTx (JStr ''/node_info'') (JStr ''http://node'') JUndefined])
   \<and> initChain blank_env demo_client
         [GetTx (JStr ''/node_info'') (JStr ''http://node'') JUndefined] =
     (Inr (), demo_client,
      [GetTx (JStr ''/node_info'') (JStr ''http://node'') JUndefined,
       GetTx (JStr ''/node_info'') (JStr ''http://node'') JUndefined])"
  by (simp add: initChain_def call_getTx_def blank_env_def demo_env_def demo_client_def
      api_nodeInfo_def not_nullish_def)

text \<open>
  C7, amended. With chainID set to a truthy value, fetched or manual, \<open>initChain\<close>
  sends nothing, changes nothing and returns the client, which holds the cached chain ID.
  With chainID unset it sends exactly one node-info request, whatever comes of it: when
  the request throws, the call throws the same and chainID stays unset; when it answers,
  the network identifier of the answer is stored, and if that is truthy a second call is
  the no-op above, so that the two calls have sent one request.
\<close>

theorem initChain_cached:
  "(truthy (chainID c) \<longrightarrow> initChain e c w = (Inr (), c, w))
   \<and> (\<not> truthy (chainID c) \<longrightarrow>
        snd (snd (initChain e c w)) = w @ [GetTx (JStr ''/node_info'') (baseURI c) JUndefined])
   \<and> (\<not> truthy (chainID c)
        \<and> getTx e w (JStr ''/node_info'') (baseURI c) JUndefined = Inl x \<longrightarrow>
       initChain e c w = (Inl x, c, w @ [GetTx (JStr ''/node_info'') (baseURI c) JUndefined]))
   \<and> (\<not> truthy (chainID c)
        \<and> getTx e w (JStr ''/node_info'') (baseURI c) JUndefined = Inr res \<longrightarrow>
       initChain e c w =
         (Inr (), c\<lparr>chainID := lodash_get res [''data'', ''node_info'', ''network'']\<rparr>,
          w @ [GetTx (JStr ''/node_info'') (baseURI c) JUndefined]))
   \<and> (\<not> truthy (chainID c)
        \<and> getTx e w (JStr ''/node_info'') (baseURI c) JUndefined = Inr res
        \<and> truthy (lodash_get res [''data'', ''node_info'', ''network'']) \<longrightarrow>
       initChain e (fst (snd (initChain e c w))) (snd (snd (initChain e c w))) =
         (Inr (), c\<lparr>chainID := lodash_get res [''data'', ''node_info'', ''network'']\<rparr>,
          w @ [GetTx (JStr ''/node_info'') (baseURI c) JUndefined]))"
  by (simp add: initChain_def call_getTx_def api_nodeInfo_def split: sum.splits)

theorem initChain_cached_witness:
  "initChain demo_env (demo_client\<lparr>chainID := JStr ''manual-7''\<rparr>) [] =
     (Inr (), demo_client\<lparr>chainID := JStr ''manual-7''\<rparr>, [])
   \<and> initChain demo_env demo_client [] =
     (Inr (), demo_client\<lparr>chainID := JStr ''seele-1''\<rparr>,
      [GetTx (JStr ''/node_info'') (JStr ''http://node'') JUndefined])
   \<and> initChain demo_env (demo_client\<lparr>chainID := JStr ''seele-1''\<rparr>)
        [GetTx (JStr ''/node_info'') (JStr ''http://node'') JUndefined] =
     (Inr (), demo_client\<lparr>chainID := JStr ''seele-1''\<rparr>,
      [GetTx (JStr ''/node_info'') (JStr ''http://node'') JUndefined])
   \<and> initChain down_env demo_client [] =
     (Inl (Error ''timeout''), demo_client,
      [GetTx (JStr ''/node_info'') (JStr ''http://node'') JUndefined])"
  using initChain_cached [where e = demo_env and w = "[]"
      and c = "demo_client\<lparr>chainID := JStr ''manual-7''\<rparr>" and res = JNull
      and x = "Error []"]
    initChain_cached [where e = demo_env and w = "[]" and c = demo_client
      and res = "JObj [(''data'', JObj [(''node_info'', JObj [(''network'', JStr ''seele-1'')])])]"
      and x = "Error []"]
    initChain_cached [where e = down_env and w = "[]" and c = demo_client and res = JNull
      and x = "Error ''timeout''"]
  by (simp add: initChain_def call_getTx_def api_nodeInfo_def demo_env_def down_env_def
      demo_getTx_def demo_client_def not_nullish_def)

section \<open>Sending coins\<close>

lemma int_to_dec_300000: "int_to_dec 300000 = ''300000''"
  by (simp add: int_to_dec_def nat_to_dec_numeral digit_char_def)

text \<open>
  C8. With a wallet that has an address, \<open>transfer\<close> builds one coin-send message,
  from that address to the recipient with the coins given, and is then one call of
  \<open>sendTx\<close> on the list of that one message, with the fee given, or
  \<open>{amount: [], gas: '300000'}\<close> when none is, and with the sequence given, or null
  when none is.
\<close>

theorem transfer_single_send:
  assumes "get_prop (wallet c) ''address'' = Inr addr"
    and "newMsgSend e addr recipient coins = Inr m"
  shows "transfer e c recipient coins fee sq w =
           sendTx e c (JArr [m])
             (if fee = JUndefined then JObj [(''amount'', JArr []), (''gas'', JStr ''300000'')]
              else fee)
             (if sq = JUndefined then JNull else sq) w
         \<and> addr = own_prop (wallet c) ''address''"
  using assms
  by (auto simp: transfer_def Let_def default_param_def DEFAULT_FEE_def int_to_dec_300000
      get_prop_Inr_iff get_prop_Inr)

theorem transfer_single_send_witness:
  "transfer demo_env (demo_client\<lparr>wallet := JObj [(''address'', JStr ''seele1qq'')]\<rparr>)
     (JStr ''seele1zz'') (JArr [JNum 4]) JUndefined JUndefined [] =
   sendTx demo_env (demo_client\<lparr>wallet := JObj [(''address'', JStr ''seele1qq'')]\<rparr>)
     (JArr [JObj [(''from_address'', JStr ''seele1qq''), (''to_address'', JStr ''seele1zz''),
                  (''amount'', JArr [JNum 4])]])
     (JObj [(''amount'', JArr []), (''gas'', JStr ''300000'')]) JNull []"
  using transfer_single_send [where e = demo_env and w = "[]"
      and c = "demo_client\<lparr>wallet := JObj [(''address'', JStr ''seele1qq'')]\<rparr>"
      and addr = "JStr ''seele1qq''" and recipient = "JStr ''seele1zz''"
      and coins = "JArr [JNum 4]" and fee = JUndefined and sq = JUndefined
      and m = "JObj [(''from_address'', JStr ''seele1qq''), (''to_address'', JStr ''seele1zz''),
                     (''amount'', JArr [JNum 4])]"]
  by (simp add: demo_env_def demo_client_def get_prop_def not_nullish_def)

section \<open>The default broadcast mode\<close>

lemma prepareSignInfo_keeps_broadcasts:
  "list_all (is_broadcast_with b) w \<Longrightarrow>
   list_all (is_broadcast_with b) (snd (prepareSignInfo e c sq w))"
  by (auto simp: prepareSignInfo_def Let_def split: sum.splits)

lemma sendTx_broadcasts:
  assumes "list_all (is_broadcast_with (broadcastMode c)) w"
  shows "list_all (is_broadcast_with (broadcastMode c)) (snd (sendTx e c ms f sq w))"
proof (cases "prepareSignInfo e c sq w")
  case (Pair r w')
  have "list_all (is_broadcast_with (broadcastMode c)) (snd (prepareSignInfo e c sq w))"
    using assms by (rule prepareSignInfo_keeps_broadcasts)
  then have "list_all (is_broadcast_with (broadcastMode c)) w'"
    using Pair by simp
  then show ?thesis
    using assms Pair by (auto simp: sendTx_def split: sum.splits)
qed

lemma transfer_broadcasts:
  assumes "list_all (is_broadcast_with (broadcastMode c)) w"
  shows "list_all (is_broadcast_with (broadcastMode c)) (snd (transfer e c r cs f sq w))"
  using assms sendTx_broadcasts [OF assms]
  by (auto simp: transfer_def Let_def split: sum.splits)

lemma call_getTx_broadcasts:
  "list_all (is_broadcast_with b) w \<Longrightarrow>
   list_all (is_broadcast_with b) (snd (call_getTx e w p u t))"
  by (simp add: call_getTx_def)

lemma query_broadcasts:
  assumes "list_all (is_broadcast_with b) w"
  shows "list_all (is_broadcast_with b) (snd (checkTxHash e c h t w))"
    and "list_all (is_broadcast_with b) (snd (getLatestBlock e c t w))"
    and "list_all (is_broadcast_with b) (snd (getBlock e c h t w))"
    and "list_all (is_broadcast_with b) (snd (getLatestValidatorSet e c t w))"
    and "list_all (is_broadcast_with b) (snd (getValidatorSet e c h t w))"
    and "list_all (is_broadcast_with b) (snd (getAccount e c h t w))"
    and "list_all (is_broadcast_with b) (snd (getBalances e c h t w))"
    and "list_all (is_broadcast_with b) (snd (getSupply e c t w))"
    and "list_all (is_broadcast_with b) (snd (getSupplyOf e c h t w))"
  using assms
  by (auto simp: checkTxHash_def getLatestBlock_def getBlock_def getLatestValidatorSet_def
      getValidatorSet_def getAccount_def getBalances_def getSupply_def getSupplyOf_def
      call_getTx_def Let_def split: sum.splits)

lemma initChain_broadcasts:
  "list_all (is_broadcast_with b) w \<Longrightarrow>
   list_all (is_broadcast_with b) (snd (snd (initChain e c w)))"
  by (auto simp: initChain_def call_getTx_def split: sum.splits)

lemma initChain_broadcastMode: "broadcastMode (fst (snd (initChain e c w))) = broadcastMode c"
  by (auto simp: initChain_def call_getTx_def split: sum.splits)

lemma setter_broadcastMode:
  "broadcastMode (snd (setChainID c v)) = broadcastMode c"
  "broadcastMode (snd (setAccountNumber c v)) = broadcastMode c"
  "broadcastMode (snd (setWallet e c v p l)) = broadcastMode c"
  by (auto simp: setChainID_def setAccountNumber_def setWallet_def Let_def split: sum.splits)

lemma step_broadcastMode:
  "\<forall>m. x \<noteq> SetBroadcastMode m \<Longrightarrow>
   broadcastMode (fst (step e x (c, w))) = broadcastMode c"
  by (cases x) (simp_all add: setter_broadcastMode initChain_broadcastMode)

lemma step_broadcasts:
  "list_all (is_broadcast_with (broadcastMode c)) w \<Longrightarrow>
   list_all (is_broadcast_with (broadcastMode c)) (snd (step e x (c, w)))"
  by (cases x)
     (simp_all add: prepareSignInfo_keeps_broadcasts sendTx_broadcasts transfer_broadcasts
        query_broadcasts initChain_broadcasts)

lemma run_broadcasts:
  assumes "\<And>m. SetBroadcastMode m \<notin> set xs"
    and "list_all (is_broadcast_with (broadcastMode c)) w"
  shows "broadcastMode (fst (run e xs (c, w))) = broadcastMode c
         \<and> list_all (is_broadcast_with (broadcastMode c)) (snd (run e xs (c, w)))"
  using assms
proof (induction xs arbitrary: c w)
  case Nil
  then show ?case by simp
next
  case (Cons x xs)
  obtain c' w' where st: "step e x (c, w) = (c', w')"
    by (cases "step e x (c, w)")
  have ne: "\<forall>m. x \<noteq> SetBroadcastMode m"
    using Cons.prems(1) by auto
  have mode: "broadcastMode c' = broadcastMode c"
    using step_broadcastMode [OF ne, of e c w] st by simp
  have "list_all (is_broadcast_with (broadcastMode c)) w'"
    using step_broadcasts [OF Cons.prems(2), of e x] st by simp
  then have tr: "list_all (is_broadcast_with (broadcastMode c')) w'"
    using mode by simp
  have rest: "\<And>m. SetBroadcastMode m \<notin> set xs"
    using Cons.prems(1) by auto
  show ?case
    using Cons.IH [OF rest tr] st mode by simp
qed

text \<open>
  C10. A client that has just been constructed has broadcast mode \<open>sync\<close> and no
  chainID, wallet or account number override. Whatever the caller then calls, as long as
  it is not \<open>setBroadcastMode\<close>, the mode stays \<open>sync\<close> and every broadcast in the
  trace was sent with \<open>sync\<close>.
\<close>

theorem constructor_defaults:
  assumes "SeeleClient_constructor e server = Inr c"
  shows "broadcastMode c = JStr ''sync'' \<and> chainID c = JUndefined \<and> wallet c = JUndefined
         \<and> accNum c = JUndefined \<and> baseURI c = server
         \<and> (\<forall>calls. (\<forall>m. SetBroadcastMode m \<notin> set calls) \<longrightarrow>
               broadcastMode (fst (run e calls (c, []))) = JStr ''sync''
               \<and> list_all (is_broadcast_with (JStr ''sync'')) (snd (run e calls (c, []))))"
proof -
  have fields: "broadcastMode c = JStr ''sync'' \<and> chainID c = JUndefined
                \<and> wallet c = JUndefined \<and> accNum c = JUndefined \<and> baseURI c = server"
    using assms
    by (auto simp: SeeleClient_constructor_def Let_def split: if_splits sum.splits)
  have "broadcastMode (fst (run e calls (c, []))) = broadcastMode c
        \<and> list_all (is_broadcast_with (broadcastMode c)) (snd (run e calls (c, [])))"
    if "\<forall>m. SetBroadcastMode m \<notin> set calls" for calls
    using that by (intro run_broadcasts) simp_all
  then show ?thesis
    using fields by simp
qed

theorem constructor_defaults_witness:
  "SeeleClient_constructor demo_env (JStr ''http://node'') = Inr demo_client
   \<and> broadcastMode demo_client = JStr ''sync''
   \<and> (\<forall>m. SetBroadcastMode m \<notin>
          set [SetWallet (JStr ''abandon ability'') JUndefined JUndefined,
               Transfer (JStr ''seele1zz'') (JArr []) JUndefined JUndefined])
   \<and> list_all (is_broadcast_with (JStr ''sync''))
        (snd (run demo_env
           [SetWallet (JStr ''abandon ability'') JUndefined JUndefined,
            Transfer (JStr ''seele1zz'') (JArr []) JUndefined JUndefined] (demo_client, [])))
   \<and> length (filter (\<lambda>ev. case ev of BroadcastTx s u b \<Rightarrow> b = JStr ''sync'' | _ \<Rightarrow> False)
        (snd (run demo_env
           [SetWallet (JStr ''abandon ability'') JUndefined JUndefined,
            Transfer (JStr ''seele1zz'') (JArr []) JUndefined JUndefined] (demo_client, [])))) = 1"
proof -
  have made: "SeeleClient_constructor demo_env (JStr ''http://node'') = Inr demo_client"
    by (simp add: SeeleClient_constructor_def demo_env_def demo_client_def)
  have calls: "\<forall>m. SetBroadcastMode m \<notin>
          set [SetWallet (JStr ''abandon ability'') JUndefined JUndefined,
               Transfer (JStr ''seele1zz'') (JArr []) JUndefined JUndefined]"
    by simp
  have sent: "length (filter (\<lambda>ev. case ev of BroadcastTx s u b \<Rightarrow> b = JStr ''sync'' | _ \<Rightarrow> False)
        (snd (run demo_env
           [SetWallet (JStr ''abandon ability'') JUndefined JUndefined,
            Transfer (JStr ''seele1zz'') (JArr []) JUndefined JUndefined] (demo_client, [])))) = 1"
    by (simp add: setWallet_def transfer_def sendTx_def prepareSignInfo_def demo_env_def
        demo_client_def default_param_def get_prop_def not_nullish_def Let_def)
  have "list_all (is_broadcast_with (JStr ''sync''))
        (snd (run demo_env
           [SetWallet (JStr ''abandon ability'') JUndefined JUndefined,
            Transfer (JStr ''seele1zz'') (JArr []) JUndefined JUndefined] (demo_client, [])))"
    using constructor_defaults [OF made] calls by blast
  then show ?thesis
    using constructor_defaults [OF made] made calls sent by simp
qed

end
